theory Spec2Isabelle
  imports Main "HOL-Library.Word"
begin

section \<open>Python values, JSON payloads and requests\<close>

text \<open>
  The module under verification is \<^verbatim>\<open>pymino/ext/account.py\<close>: the class \<^verbatim>\<open>Account\<close>, whose
  twelve methods each build one request and give it to \<^verbatim>\<open>self.session.handler\<close>.

  The type hints of the methods say \<^verbatim>\<open>str\<close>, but Python does not enforce them: an argument
  is a \<^verbatim>\<open>str\<close> or \<^verbatim>\<open>None\<close>. A \<^verbatim>\<open>str\<close> is the list of the bytes of its UTF-8 encoding, so a
  string that has none (one with a lone surrogate) is not among the arguments.
\<close>

datatype pyval = PyNone | PyStr string

text \<open>A JSON-serialisable value. A \<^verbatim>\<open>dict\<close> literal is the list of its items in source order.\<close>

datatype json = JNull | JBool bool | JInt int | JStr string | JObj "(string \<times> json) list"

text \<open>How an f-string renders \<^verbatim>\<open>{x}\<close>: \<^verbatim>\<open>str(x)\<close>.\<close>

fun py_str :: "pyval \<Rightarrow> string" where
  "py_str PyNone = ''None''"
| "py_str (PyStr s) = s"

text \<open>A Python value put into a payload as it is.\<close>

fun py_json :: "pyval \<Rightarrow> json" where
  "py_json PyNone = JNull"
| "py_json (PyStr s) = JStr s"

text \<open>
  A Python \<^verbatim>\<open>float\<close> is an IEEE double: the number \<open>significand * 2 ^ exponent\<close>, with
  \<open>\<bar>significand\<bar> < 2 ^ 53\<close> and \<open>- 1074 \<le> exponent\<close>. Infinities and NaN are left out:
  \<^verbatim>\<open>time()\<close>, the only source of floats here, returns the seconds since the epoch.
\<close>

record pyfloat =
  significand :: int
  exponent :: int

text \<open>The number of binary digits of a natural number.\<close>

fun bit_length :: "nat \<Rightarrow> nat" where
  "bit_length n = (if n = 0 then 0 else Suc (bit_length (n div 2)))"

text \<open>\<open>n / 2 ^ k\<close> rounded to the nearest integer, a tie to the even one.\<close>

definition round_half_even :: "nat \<Rightarrow> nat \<Rightarrow> nat" where
  "round_half_even n k =
     (let q = n div 2 ^ k; r = n mod 2 ^ k in
      if 2 ^ k < 2 * r \<or> (2 * r = 2 ^ k \<and> odd q) then Suc q else q)"

text \<open>An \<^verbatim>\<open>int\<close> operand of a float operation becomes a float (exactly, below \<open>2 ^ 53\<close>).\<close>

definition float_of_int :: "int \<Rightarrow> pyfloat" where
  "float_of_int n = \<lparr>significand = n, exponent = 0\<rparr>"

text \<open>
  The product of two floats as the hardware gives it: the exact product, rounded to 53
  significant bits, a tie to the even significand. The exponent is not bounded above, so a
  product that would overflow to infinity (a clock beyond \<open>10 ^ 305\<close> seconds) is outside the
  model; a product with 1000 cannot fall below the smallest exponent. The subtraction is
  that of the natural numbers: a product of at most 53 bits is kept as it is.
\<close>

definition float_mul :: "pyfloat \<Rightarrow> pyfloat \<Rightarrow> pyfloat" where
  "float_mul x y =
     (let p = significand x * significand y;
          k = bit_length (nat \<bar>p\<bar>) - 53
      in \<lparr>significand = sgn p * int (round_half_even (nat \<bar>p\<bar>) k),
          exponent = exponent x + exponent y + int k\<rparr>)"

text \<open>Python's \<^verbatim>\<open>int(x)\<close> on a float: truncation towards zero.\<close>

definition py_int :: "pyfloat \<Rightarrow> int" where
  "py_int x =
     (if 0 \<le> exponent x then significand x * 2 ^ nat (exponent x)
      else sgn (significand x) * (\<bar>significand x\<bar> div 2 ^ nat (- exponent x)))"

type_synonym bytes = "8 word list"

text \<open>The \<^verbatim>\<open>data=\<close> argument of the handler: a \<^verbatim>\<open>dict\<close> or raw \<^verbatim>\<open>bytes\<close>.\<close>

datatype body = Json json | Bytes bytes

text \<open>
  The keyword arguments of one call of \<^verbatim>\<open>self.session.handler\<close>. A keyword the caller does
  not pass is \<open>None\<close>.
\<close>

record request =
  rq_method :: string
  rq_url :: string
  rq_data :: "body option"
  rq_content_type :: "string option"

section \<open>The collaborators\<close>

text \<open>
  \<^verbatim>\<open>from . generate import *\<close> brings in \<^verbatim>\<open>Session\<close>, \<^verbatim>\<open>device_id\<close>, \<^verbatim>\<open>time\<close> and the response
  classes \<^verbatim>\<open>Authenticate\<close>, \<^verbatim>\<open>SResponse\<close>, \<^verbatim>\<open>Wallet\<close>, \<^verbatim>\<open>ResetPassword\<close>. None of them is part of
  \<^verbatim>\<open>account.py\<close>, so each is a parameter of the model.

  A session is its \<^verbatim>\<open>handler\<close> method: given how many requests it has handled before and the
  request, it raises (\<open>Inl\<close>) or returns a raw reply (\<open>Inr\<close>). The index lets the reply to
  a request differ from the reply to an equal, earlier request.
\<close>

record ('e, 'r) session =
  handler :: "nat \<Rightarrow> request \<Rightarrow> 'e + 'r"

text \<open>
  The world outside the client: the values that successive calls of \<^verbatim>\<open>device_id()\<close> and
  \<^verbatim>\<open>time()\<close> return, the files that \<^verbatim>\<open>open(path, "rb")\<close> can read with their contents (no
  path with a NUL character is among them), and the requests given to the handler so far,
  oldest first.
\<close>

record world =
  device_ids :: "nat \<Rightarrow> string"
  device_id_calls :: nat
  clock :: "nat \<Rightarrow> pyfloat"
  time_calls :: nat
  files :: "string \<rightharpoonup> bytes"
  sent :: "request list"

definition device_id :: "world \<Rightarrow> string \<times> world" where
  "device_id w = (device_ids w (device_id_calls w), w\<lparr>device_id_calls := Suc (device_id_calls w)\<rparr>)"

definition time :: "world \<Rightarrow> pyfloat \<times> world" where
  "time w = (clock w (time_calls w), w\<lparr>time_calls := Suc (time_calls w)\<rparr>)"

text \<open>An object of one of the response classes, built over a raw reply.\<close>

datatype 'r wrapper = Authenticate 'r | SResponse 'r | Wallet 'r | ResetPassword 'r

text \<open>What a method returns: such an object, or the value of one of its attributes.\<close>

datatype 'r pyobj = Obj "'r wrapper" | Attr "'r wrapper" string

text \<open>
  What a method raises: an exception of Python's own, or whatever the handler raised,
  passed on unchanged (no method has a \<^verbatim>\<open>try\<close>).
\<close>

datatype 'e error = AttributeError | TypeError | ValueError | OSError | Raised 'e

type_synonym ('e, 'r) outcome = "'e error + 'r pyobj"

text \<open>The call \<^verbatim>\<open>self.session.handler(...)\<close>: the request is logged and the handler decides.\<close>

definition call_handler :: "('e, 'r) session \<Rightarrow> request \<Rightarrow> world \<Rightarrow> ('e + 'r) \<times> world" where
  "call_handler s rq w = (handler s (length (sent w)) rq, w\<lparr>sent := sent w @ [rq]\<rparr>)"

text \<open>The expression around the handler call: an exception passes, a reply is wrapped.\<close>

definition returning :: "('r \<Rightarrow> 'r pyobj) \<Rightarrow> ('e + 'r) \<times> world \<Rightarrow> ('e, 'r) outcome \<times> world" where
  "returning f p = (case fst p of Inl e \<Rightarrow> Inl (Raised e) | Inr r \<Rightarrow> Inr (f r), snd p)"

section \<open>The class Account\<close>

text \<open>
  An instance has the attributes \<^verbatim>\<open>session\<close> and \<^verbatim>\<open>debug\<close>, and \<^verbatim>\<open>userId\<close> when somebody has
  set it (\<open>None\<close>: the instance has no such attribute). No method assigns to an attribute
  of \<^verbatim>\<open>self\<close>, so a method takes the instance and returns no new one.
\<close>

record ('e, 'r) account =
  session :: "('e, 'r) session"
  debug :: "bool option"
  userId :: "pyval option"

definition init :: "('e, 'r) session \<Rightarrow> bool option \<Rightarrow> ('e, 'r) account" where
  "init s d = \<lparr>session = s, debug = d, userId = None\<rparr>"

definition register ::
  "('e, 'r) account \<Rightarrow> pyval \<Rightarrow> pyval \<Rightarrow> pyval \<Rightarrow> pyval \<Rightarrow> world \<Rightarrow> ('e, 'r) outcome \<times> world" where
  "register self email password username verificationCode w =
     (let (dev, w1) = device_id w; (t, w2) = time w1 in
      returning (\<lambda>r. Obj (Authenticate r))
        (call_handler (session self)
          \<lparr>rq_method = ''POST'', rq_url = ''/g/s/auth/register'',
           rq_data = Some (Json (JObj [
             (''secret'', JStr (''0 '' @ py_str password)),
             (''deviceID'', JStr dev),
             (''email'', py_json email),
             (''clientType'', JInt 100),
             (''nickname'', py_json username),
             (''validationContext'', JObj [
               (''data'', JObj [(''code'', py_json verificationCode)]),
               (''type'', JInt 1),
               (''identity'', py_json email)]),
             (''type'', JInt 1),
             (''identity'', py_json email),
             (''timestamp'', JInt (py_int (float_mul t (float_of_int 1000))))])),
           rq_content_type = None\<rparr> w2))"

definition delete_request ::
  "('e, 'r) account \<Rightarrow> pyval \<Rightarrow> pyval \<Rightarrow> world \<Rightarrow> ('e, 'r) outcome \<times> world" where
  "delete_request self email password w =
     (let (dev, w1) = device_id w; (t, w2) = time w1 in
      returning (\<lambda>r. Attr (SResponse r) ''json'')
        (call_handler (session self)
          \<lparr>rq_method = ''POST'', rq_url = ''/g/s/account/delete-request'',
           rq_data = Some (Json (JObj [
             (''secret'', JStr (''0 '' @ py_str password)),
             (''deviceID'', JStr dev),
             (''email'', py_json email),
             (''timestamp'', JInt (py_int (float_mul t (float_of_int 1000))))])),
           rq_content_type = None\<rparr> w2))"

definition delete_request_cancel ::
  "('e, 'r) account \<Rightarrow> pyval \<Rightarrow> pyval \<Rightarrow> world \<Rightarrow> ('e, 'r) outcome \<times> world" where
  "delete_request_cancel self email password w =
     (let (dev, w1) = device_id w; (t, w2) = time w1 in
      returning (\<lambda>r. Attr (SResponse r) ''json'')
        (call_handler (session self)
          \<lparr>rq_method = ''POST'', rq_url = ''/g/s/account/delete-request/cancel'',
           rq_data = Some (Json (JObj [
             (''secret'', JStr (''0 '' @ py_str password)),
             (''deviceID'', JStr dev),
             (''email'', py_json email),
             (''timestamp'', JInt (py_int (float_mul t (float_of_int 1000))))])),
           rq_content_type = None\<rparr> w2))"

definition check_device ::
  "('e, 'r) account \<Rightarrow> pyval \<Rightarrow> world \<Rightarrow> ('e, 'r) outcome \<times> world" where
  "check_device self deviceId w =
     (let (t, w1) = time w in
      returning (\<lambda>r. Attr (SResponse r) ''json'')
        (call_handler (session self)
          \<lparr>rq_method = ''POST'', rq_url = ''/g/s/device/check'',
           rq_data = Some (Json (JObj [
             (''deviceID'', py_json deviceId),
             (''clientType'', JInt 100),
             (''timezone'', JInt (- 310)),
             (''systemPushEnabled'', JBool True),
             (''timestamp'', JInt (py_int (float_mul t (float_of_int 1000))))])),
           rq_content_type = None\<rparr> w1))"

definition fetch_account :: "('e, 'r) account \<Rightarrow> world \<Rightarrow> ('e, 'r) outcome \<times> world" where
  "fetch_account self w =
     returning (\<lambda>r. Attr (SResponse r) ''json'')
       (call_handler (session self)
         \<lparr>rq_method = ''GET'', rq_url = ''/g/s/account'', rq_data = None,
          rq_content_type = None\<rparr> w)"

text \<open>
  The parameter \<^verbatim>\<open>image\<close> is written \<open>img\<close> (\<open>image\<close> is a constant of HOL).
  \<^verbatim>\<open>open(image, "rb").read()\<close> is evaluated before the handler is called: \<^verbatim>\<open>open(None, "rb")\<close>
  raises \<^verbatim>\<open>TypeError\<close>; a path that cannot be read raises \<^verbatim>\<open>ValueError\<close> when it has a NUL
  character in it (\<^verbatim>\<open>embedded null byte\<close>) and \<^verbatim>\<open>OSError\<close> otherwise (\<^verbatim>\<open>FileNotFoundError\<close> and
  its siblings); then no request is made.
\<close>

definition upload_image ::
  "('e, 'r) account \<Rightarrow> pyval \<Rightarrow> world \<Rightarrow> ('e, 'r) outcome \<times> world" where
  "upload_image self img w =
     (case img of
        PyNone \<Rightarrow> (Inl TypeError, w)
      | PyStr path \<Rightarrow>
          (case files w path of
             None \<Rightarrow> (Inl (if CHR 0x00 \<in> set path then ValueError else OSError), w)
           | Some content \<Rightarrow>
               returning (\<lambda>r. Attr (SResponse r) ''mediaValue'')
                 (call_handler (session self)
                   \<lparr>rq_method = ''POST'', rq_url = ''/g/s/media/upload'',
                    rq_data = Some (Bytes content),
                    rq_content_type = Some ''image/jpg''\<rparr> w)))"

text \<open>
  The f-string reads \<^verbatim>\<open>self.userId\<close> before the handler is called: on an instance without
  the attribute that raises \<^verbatim>\<open>AttributeError\<close>, and no request is made.
\<close>

definition fetch_profile :: "('e, 'r) account \<Rightarrow> world \<Rightarrow> ('e, 'r) outcome \<times> world" where
  "fetch_profile self w =
     (case userId self of
        None \<Rightarrow> (Inl AttributeError, w)
      | Some uid \<Rightarrow>
          returning (\<lambda>r. Attr (SResponse r) ''json'')
            (call_handler (session self)
              \<lparr>rq_method = ''GET'', rq_url = ''/g/s/user-profile/'' @ py_str uid,
               rq_data = None, rq_content_type = None\<rparr> w))"

definition set_amino_id ::
  "('e, 'r) account \<Rightarrow> pyval \<Rightarrow> world \<Rightarrow> ('e, 'r) outcome \<times> world" where
  "set_amino_id self aminoId w =
     (let (t, w1) = time w in
      returning (\<lambda>r. Attr (SResponse r) ''json'')
        (call_handler (session self)
          \<lparr>rq_method = ''POST'', rq_url = ''/g/s/account/change-amino-id'',
           rq_data = Some (Json (JObj [
             (''aminoId'', py_json aminoId),
             (''timestamp'', JInt (py_int (float_mul t (float_of_int 1000))))])),
           rq_content_type = None\<rparr> w1))"

definition fetch_wallet :: "('e, 'r) account \<Rightarrow> world \<Rightarrow> ('e, 'r) outcome \<times> world" where
  "fetch_wallet self w =
     returning (\<lambda>r. Attr (Wallet r) ''json'')
       (call_handler (session self)
         \<lparr>rq_method = ''GET'', rq_url = ''/g/s/wallet'', rq_data = None,
          rq_content_type = None\<rparr> w)"

definition request_security_validation ::
  "('e, 'r) account \<Rightarrow> pyval \<Rightarrow> bool \<Rightarrow> world \<Rightarrow> ('e, 'r) outcome \<times> world" where
  "request_security_validation self email resetPassword w =
     (let (dev, w1) = device_id w; (t, w2) = time w1 in
      returning (\<lambda>r. Attr (SResponse r) ''json'')
        (call_handler (session self)
          \<lparr>rq_method = ''POST'', rq_url = ''/g/s/auth/request-security-validation'',
           rq_data = Some (Json (JObj [
             (''identity'', py_json email),
             (''type'', JInt 1),
             (''deviceID'', JStr dev),
             (''level'', if resetPassword then JInt 2 else JNull),
             (''purpose'', if resetPassword then JStr ''reset-password'' else JNull),
             (''timestamp'', JInt (py_int (float_mul t (float_of_int 1000))))])),
           rq_content_type = None\<rparr> w2))"

definition activate_email ::
  "('e, 'r) account \<Rightarrow> pyval \<Rightarrow> pyval \<Rightarrow> world \<Rightarrow> ('e, 'r) outcome \<times> world" where
  "activate_email self email code w =
     (let (dev, w1) = device_id w; (t, w2) = time w1 in
      returning (\<lambda>r. Attr (SResponse r) ''json'')
        (call_handler (session self)
          \<lparr>rq_method = ''POST'', rq_url = ''/g/s/auth/activate-email'',
           rq_data = Some (Json (JObj [
             (''type'', JInt 1),
             (''identity'', py_json email),
             (''data'', JObj [(''code'', py_json code)]),
             (''deviceID'', JStr dev),
             (''timestamp'', JInt (py_int (float_mul t (float_of_int 1000))))])),
           rq_content_type = None\<rparr> w2))"

text \<open>\<^verbatim>\<open>device_id()\<close> is called twice: for the inner context first, then for the top level.\<close>

definition reset_password ::
  "('e, 'r) account \<Rightarrow> pyval \<Rightarrow> pyval \<Rightarrow> pyval \<Rightarrow> world \<Rightarrow> ('e, 'r) outcome \<times> world" where
  "reset_password self email new_password code w =
     (let (dev1, w1) = device_id w; (dev2, w2) = device_id w1 in
      returning (\<lambda>r. Obj (ResetPassword r))
        (call_handler (session self)
          \<lparr>rq_method = ''POST'', rq_url = ''/g/s/auth/reset-password'',
           rq_data = Some (Json (JObj [
             (''updateSecret'', JStr (''0 '' @ py_str new_password)),
             (''emailValidationContext'', JObj [
               (''data'', JObj [(''code'', py_json code)]),
               (''type'', JInt 1),
               (''identity'', py_json email),
               (''level'', JInt 2),
               (''deviceID'', JStr dev1)]),
             (''phoneNumberValidationContext'', JNull),
             (''deviceID'', JStr dev2)])),
           rq_content_type = None\<rparr> w2))"

section \<open>Observations\<close>

text \<open>The requests that a call gives to the handler.\<close>

definition requests :: "(world \<Rightarrow> 'a \<times> world) \<Rightarrow> world \<Rightarrow> request list" where
  "requests op w = drop (length (sent w)) (sent (snd (op w)))"

text \<open>The items of a request's JSON object, and the value under a key (\<open>None\<close>: no such key).\<close>

definition payload :: "request \<Rightarrow> (string \<times> json) list" where
  "payload rq = (case rq_data rq of Some (Json (JObj kvs)) \<Rightarrow> kvs | _ \<Rightarrow> [])"

definition field :: "string \<Rightarrow> request \<Rightarrow> json option" where
  "field k rq = map_of (payload rq) k"

text \<open>The millisecond timestamp and the device id that a call made in \<open>w\<close> generates.\<close>

definition timestamp_now :: "world \<Rightarrow> json" where
  "timestamp_now w = JInt (py_int (float_mul (clock w (time_calls w)) (float_of_int 1000)))"

definition fresh_device_id :: "world \<Rightarrow> json" where
  "fresh_device_id w = JStr (device_ids w (device_id_calls w))"

section \<open>Calls in sequence\<close>

text \<open>One call of a method of the class, with its arguments.\<close>

datatype call =
    RegisterCall pyval pyval pyval pyval
  | DeleteRequestCall pyval pyval
  | DeleteRequestCancelCall pyval pyval
  | CheckDeviceCall pyval
  | FetchAccountCall
  | UploadImageCall pyval
  | FetchProfileCall
  | SetAminoIdCall pyval
  | FetchWalletCall
  | RequestSecurityValidationCall pyval bool
  | ActivateEmailCall pyval pyval
  | ResetPasswordCall pyval pyval pyval

fun run :: "('e, 'r) account \<Rightarrow> call \<Rightarrow> world \<Rightarrow> ('e, 'r) outcome \<times> world" where
  "run self (RegisterCall email password username verificationCode) w =
     register self email password username verificationCode w"
| "run self (DeleteRequestCall email password) w = delete_request self email password w"
| "run self (DeleteRequestCancelCall email password) w = delete_request_cancel self email password w"
| "run self (CheckDeviceCall deviceId) w = check_device self deviceId w"
| "run self FetchAccountCall w = fetch_account self w"
| "run self (UploadImageCall img) w = upload_image self img w"
| "run self FetchProfileCall w = fetch_profile self w"
| "run self (SetAminoIdCall aminoId) w = set_amino_id self aminoId w"
| "run self FetchWalletCall w = fetch_wallet self w"
| "run self (RequestSecurityValidationCall email resetPassword) w =
     request_security_validation self email resetPassword w"
| "run self (ActivateEmailCall email code) w = activate_email self email code w"
| "run self (ResetPasswordCall email new_password code) w =
     reset_password self email new_password code w"

text \<open>
  A caller that makes the calls one after the other on the same instance and keeps what
  each one returned or raised.
\<close>

fun run_all :: "('e, 'r) account \<Rightarrow> call list \<Rightarrow> world \<Rightarrow> ('e, 'r) outcome list \<times> world" where
  "run_all self [] w = ([], w)"
| "run_all self (c # cs) w =
     (let (res, w1) = run self c w; (ress, w2) = run_all self cs w1 in (res # ress, w2))"

section \<open>The handler that the specification describes\<close>

text \<open>
  Modelled from the spec: the raw response that the transport gives to \<^verbatim>\<open>Session.handler\<close>
  (the class \<^verbatim>\<open>Session\<close> is not in \<^verbatim>\<open>account.py\<close>). Of a response the spec uses the HTTP status,
  whether the JSON body contains the platform's error envelope, and the numeric code and
  the message that the remote put in the body.
\<close>

record raw_response =
  status :: nat
  error_envelope :: bool
  remote_code :: int
  remote_message :: string

text \<open>
  Modelled from the spec: the three error kinds of its section 7 (the exception classes
  are not in \<^verbatim>\<open>account.py\<close>). An \<open>ApiError\<close> carries the remote's code and message.
\<close>

datatype api_error = TransportError | ApiError int string | ValidationError

text \<open>
  Modelled from the spec: \<^verbatim>\<open>Session.handler\<close>, which is missing. A failure of the transport
  (\<open>None\<close>) is a \<open>TransportError\<close>; a response with HTTP status of 400 or more, or with the
  error envelope in its body, is an \<open>ApiError\<close> with the remote's code and message; any other
  response is returned.
\<close>

definition spec_handler ::
  "(nat \<Rightarrow> request \<Rightarrow> raw_response option) \<Rightarrow> nat \<Rightarrow> request \<Rightarrow> api_error + raw_response" where
  "spec_handler send n rq =
     (case send n rq of
        None \<Rightarrow> Inl TransportError
      | Some resp \<Rightarrow>
          if 400 \<le> status resp \<or> error_envelope resp
          then Inl (ApiError (remote_code resp) (remote_message resp))
          else Inr resp)"

text \<open>Modelled from the spec: a session with that handler.\<close>

definition spec_session ::
  "(nat \<Rightarrow> request \<Rightarrow> raw_response option) \<Rightarrow> (api_error, raw_response) session" where
  "spec_session send = \<lparr>handler = spec_handler send\<rparr>"

section \<open>Example inputs\<close>

text \<open>A handler that answers the \<open>n\<close>-th request with \<open>n\<close>, and one that always raises.\<close>

definition counting_session :: "(string, nat) session" where
  "counting_session = \<lparr>handler = (\<lambda>n rq. Inr n)\<rparr>"

definition failing_session :: "(string, nat) session" where
  "failing_session = \<lparr>handler = (\<lambda>n rq. Inl ''ApiError 270: verification required'')\<rparr>"

text \<open>A remote that refuses every request: status 403 with code 270 in the envelope.\<close>

definition refusing_send :: "nat \<Rightarrow> request \<Rightarrow> raw_response option" where
  "refusing_send n rq =
     Some \<lparr>status = 403, error_envelope = True, remote_code = 270,
           remote_message = ''verification required''\<rparr>"

text \<open>A world whose clock reads 1700000000.5 seconds.\<close>

definition example_world :: world where
  "example_world =
     \<lparr>device_ids = (\<lambda>n. if n = 0 then ''42A1'' else ''42B2''),
      device_id_calls = 0,
      clock = (\<lambda>n. \<lparr>significand = 3400000001, exponent = - 1\<rparr>),
      time_calls = 0,
      files = [''cat.jpg'' \<mapsto> [0xFF, 0xD8, 0xFF]],
      sent = []\<rparr>"

section \<open>Unfolding the model\<close>

declare bit_length.simps [simp del]

lemmas world_defs = requests_def returning_def call_handler_def device_id_def time_def
  timestamp_now_def fresh_device_id_def

lemmas method_defs = register_def delete_request_def delete_request_cancel_def
  check_device_def fetch_account_def upload_image_def fetch_profile_def set_amino_id_def
  fetch_wallet_def request_security_validation_def activate_email_def reset_password_def

lemmas example_defs = init_def counting_session_def failing_session_def example_world_def

text \<open>
  The timestamp at the example clock, and at the double nearest to 1700000000.001, where
  the rounded product is 1700000000001 although the exact product is below it.
\<close>

lemma example_product:
  "float_mul \<lparr>significand = 3400000001, exponent = - 1\<rparr> (float_of_int 1000)
     = \<lparr>significand = 3400000001000, exponent = - 1\<rparr>"
proof -
  have "bit_length (nat \<bar>3400000001 * 1000\<bar>) - 53 = 0"
    by (simp add: bit_length.simps)
  moreover have "round_half_even 3400000001000 0 = 3400000001000"
    by (simp add: round_half_even_def Let_def)
  ultimately show ?thesis
    by (simp add: float_mul_def float_of_int_def Let_def)
qed

lemma example_timestamp:
  "py_int (float_mul \<lparr>significand = 3400000001, exponent = - 1\<rparr> (float_of_int 1000))
     = 1700000000500"
  by (simp add: example_product py_int_def)

lemma rounded_product:
  "float_mul \<lparr>significand = 7130316800004194, exponent = - 22\<rparr> (float_of_int 1000)
     = \<lparr>significand = 6963200000004096, exponent = - 12\<rparr>"
proof -
  have "bit_length (nat \<bar>7130316800004194 * 1000\<bar>) - 53 = 10"
    by (simp add: bit_length.simps)
  moreover have "round_half_even 7130316800004194000 10 = 6963200000004096"
    by (simp add: round_half_even_def Let_def)
  ultimately show ?thesis
    by (simp add: float_mul_def float_of_int_def Let_def)
qed

lemma timestamp_of_rounded_product:
  "py_int (float_mul \<lparr>significand = 7130316800004194, exponent = - 22\<rparr> (float_of_int 1000))
     = 1700000000001"
  by (simp add: rounded_product py_int_def)

lemma field_of_request:
  "field k \<lparr>rq_method = m, rq_url = u, rq_data = Some (Json (JObj kvs)), rq_content_type = ct\<rparr>
     = map_of kvs k"
  "field k \<lparr>rq_method = m, rq_url = u, rq_data = Some (Bytes b), rq_content_type = ct\<rparr> = None"
  "field k \<lparr>rq_method = m, rq_url = u, rq_data = None, rq_content_type = ct\<rparr> = None"
  by (simp_all add: field_def payload_def)

section \<open>The secret prefix\<close>

text \<open>
  C1. For every password string \<open>p\<close>, \<^verbatim>\<open>register\<close> makes one request, whose payload has
  \<^verbatim>\<open>secret\<close> = \<^verbatim>\<open>"0 "\<close> followed by \<open>p\<close>; and for every new password \<open>p\<close>, \<^verbatim>\<open>reset_password\<close>
  makes one request, whose payload has \<^verbatim>\<open>updateSecret\<close> = \<^verbatim>\<open>"0 "\<close> followed by \<open>p\<close>.
\<close>

theorem secret_is_zero_space_password:
  "map (field ''secret'') (requests (register self email (PyStr p) username verificationCode) w)
     = [Some (JStr (''0 '' @ p))]
   \<and> map (field ''updateSecret'') (requests (reset_password self email (PyStr p) code) w)
     = [Some (JStr (''0 '' @ p))]"
  by (simp add: register_def reset_password_def world_defs field_of_request)

section \<open>Timestamp and device id\<close>

text \<open>
  C2, as amended. The timestamp is \<^verbatim>\<open>int(time() * 1000)\<close> as the doubles compute it and the
  device id is the next result of \<^verbatim>\<open>device_id()\<close>. Of the methods that POST a JSON payload, \<^verbatim>\<open>register\<close>, \<^verbatim>\<open>delete_request\<close>,
  \<^verbatim>\<open>delete_request_cancel\<close>, \<^verbatim>\<open>request_security_validation\<close> and \<^verbatim>\<open>activate_email\<close> attach the
  millisecond timestamp and a device id generated in the call; \<^verbatim>\<open>check_device\<close> attaches the
  timestamp and the device id its caller gave; \<^verbatim>\<open>set_amino_id\<close> attaches the timestamp and no
  \<^verbatim>\<open>deviceID\<close> key at all; \<^verbatim>\<open>reset_password\<close> attaches a generated device id (the second of the
  two it generates) and no \<^verbatim>\<open>timestamp\<close> key. \<^verbatim>\<open>upload_image\<close>, whose body is raw bytes, has
  neither.
\<close>

theorem timestamp_and_deviceID_per_method:
  "map (\<lambda>rq. (field ''timestamp'' rq, field ''deviceID'' rq))
       (requests (register self email password username verificationCode) w)
     = [(Some (timestamp_now w), Some (fresh_device_id w))]
   \<and> map (\<lambda>rq. (field ''timestamp'' rq, field ''deviceID'' rq))
       (requests (delete_request self email password) w)
     = [(Some (timestamp_now w), Some (fresh_device_id w))]
   \<and> map (\<lambda>rq. (field ''timestamp'' rq, field ''deviceID'' rq))
       (requests (delete_request_cancel self email password) w)
     = [(Some (timestamp_now w), Some (fresh_device_id w))]
   \<and> map (\<lambda>rq. (field ''timestamp'' rq, field ''deviceID'' rq))
       (requests (request_security_validation self email resetPassword) w)
     = [(Some (timestamp_now w), Some (fresh_device_id w))]
   \<and> map (\<lambda>rq. (field ''timestamp'' rq, field ''deviceID'' rq))
       (requests (activate_email self email code) w)
     = [(Some (timestamp_now w), Some (fresh_device_id w))]
   \<and> map (\<lambda>rq. (field ''timestamp'' rq, field ''deviceID'' rq))
       (requests (check_device self deviceId) w)
     = [(Some (timestamp_now w), Some (py_json deviceId))]
   \<and> map (\<lambda>rq. (field ''timestamp'' rq, field ''deviceID'' rq))
       (requests (set_amino_id self aminoId) w)
     = [(Some (timestamp_now w), None)]
   \<and> map (\<lambda>rq. (field ''timestamp'' rq, field ''deviceID'' rq))
       (requests (reset_password self email new_password code) w)
     = [(None, Some (fresh_device_id (snd (device_id w))))]
   \<and> map (\<lambda>rq. (field ''timestamp'' rq, field ''deviceID'' rq))
       (requests (upload_image self (PyStr path)) (w\<lparr>files := (files w)(path \<mapsto> content)\<rparr>))
     = [(None, None)]"
  by (simp add: method_defs world_defs field_of_request)

text \<open>
  C2 as stated says that the payload of \<^verbatim>\<open>set_amino_id\<close> has a \<^verbatim>\<open>deviceID\<close>. It has none.
\<close>

theorem set_amino_id_has_no_deviceID:
  "map (field ''deviceID'')
     (requests (set_amino_id (init counting_session None) (PyStr ''neko'')) example_world) = [None]"
  by (simp add: set_amino_id_def world_defs field_of_request example_defs)

section \<open>Golden payloads\<close>

text \<open>
  C3. For every email, new password and code, \<^verbatim>\<open>reset_password\<close> makes one request: a POST
  whose payload is \<^verbatim>\<open>updateSecret\<close> = \<^verbatim>\<open>"0 "\<close> + new password, \<^verbatim>\<open>emailValidationContext\<close> =
  \<^verbatim>\<open>{data: {code}, type: 1, identity: email, level: 2, deviceID}\<close>,
  \<^verbatim>\<open>phoneNumberValidationContext\<close> = null and a top-level \<^verbatim>\<open>deviceID\<close> (the two device ids are
  two successive results of \<^verbatim>\<open>device_id()\<close>); the payload has no top-level \<^verbatim>\<open>timestamp\<close> key.
\<close>

theorem reset_password_payload:
  "requests (reset_password self (PyStr email) (PyStr newPassword) (PyStr code)) w =
     [\<lparr>rq_method = ''POST'', rq_url = ''/g/s/auth/reset-password'',
       rq_data = Some (Json (JObj [
         (''updateSecret'', JStr (''0 '' @ newPassword)),
         (''emailValidationContext'', JObj [
            (''data'', JObj [(''code'', JStr code)]),
            (''type'', JInt 1),
            (''identity'', JStr email),
            (''level'', JInt 2),
            (''deviceID'', fresh_device_id w)]),
         (''phoneNumberValidationContext'', JNull),
         (''deviceID'', fresh_device_id (snd (device_id w)))])),
       rq_content_type = None\<rparr>]
   \<and> map (field ''timestamp'')
         (requests (reset_password self (PyStr email) (PyStr newPassword) (PyStr code)) w) = [None]"
  by (simp add: reset_password_def world_defs field_of_request)

text \<open>
  C4. For every email, \<^verbatim>\<open>request_security_validation\<close> with \<^verbatim>\<open>resetPassword=True\<close> sends
  \<^verbatim>\<open>level\<close> = 2 and \<^verbatim>\<open>purpose\<close> = \<^verbatim>\<open>"reset-password"\<close>; with \<^verbatim>\<open>resetPassword=False\<close> the keys
  \<^verbatim>\<open>level\<close> and \<^verbatim>\<open>purpose\<close> are in the payload with the value null, not left out. The other
  fields (\<^verbatim>\<open>identity\<close> = email, \<^verbatim>\<open>type\<close> = 1, \<^verbatim>\<open>deviceID\<close>, \<^verbatim>\<open>timestamp\<close>) are the same in both.
\<close>

theorem request_security_validation_payload:
  "requests (request_security_validation self (PyStr email) True) w =
     [\<lparr>rq_method = ''POST'', rq_url = ''/g/s/auth/request-security-validation'',
       rq_data = Some (Json (JObj [
         (''identity'', JStr email),
         (''type'', JInt 1),
         (''deviceID'', fresh_device_id w),
         (''level'', JInt 2),
         (''purpose'', JStr ''reset-password''),
         (''timestamp'', timestamp_now w)])),
       rq_content_type = None\<rparr>]
   \<and> requests (request_security_validation self (PyStr email) False) w =
     [\<lparr>rq_method = ''POST'', rq_url = ''/g/s/auth/request-security-validation'',
       rq_data = Some (Json (JObj [
         (''identity'', JStr email),
         (''type'', JInt 1),
         (''deviceID'', fresh_device_id w),
         (''level'', JNull),
         (''purpose'', JNull),
         (''timestamp'', timestamp_now w)])),
       rq_content_type = None\<rparr>]
   \<and> map (\<lambda>rq. (field ''level'' rq, field ''purpose'' rq))
         (requests (request_security_validation self (PyStr email) False) w)
       = [(Some JNull, Some JNull)]"
  by (simp add: request_security_validation_def world_defs field_of_request)

text \<open>
  C5, as amended. For every device id string \<open>d\<close>, \<^verbatim>\<open>check_device\<close> makes one request: a POST
  whose \<^verbatim>\<open>url\<close> argument is \<^verbatim>\<open>/g/s/device/check\<close>, with exactly the payload
  \<^verbatim>\<open>{deviceID: d, clientType: 100, timezone: -310, systemPushEnabled: true, timestamp}\<close>,
  the timestamp being \<^verbatim>\<open>int(time() * 1000)\<close> as the doubles compute it.
\<close>

theorem check_device_payload:
  "requests (check_device self (PyStr d)) w =
     [\<lparr>rq_method = ''POST'', rq_url = ''/g/s/device/check'',
       rq_data = Some (Json (JObj [
         (''deviceID'', JStr d),
         (''clientType'', JInt 100),
         (''timezone'', JInt (- 310)),
         (''systemPushEnabled'', JBool True),
         (''timestamp'', timestamp_now w)])),
       rq_content_type = None\<rparr>]"
  by (simp add: check_device_def world_defs)

lemma check_device_timestamp_is_rounded:
  "map (field ''timestamp'')
     (requests (check_device (init counting_session None) (PyStr ''abc123''))
        (example_world\<lparr>clock := \<lambda>n. \<lparr>significand = 7130316800004194, exponent = - 22\<rparr>\<rparr>))
     = [Some (JInt 1700000000001)]"
  by (simp add: check_device_def world_defs example_defs field_of_request
        timestamp_of_rounded_product)

text \<open>
  C5 as stated names the path \<^verbatim>\<open>/device/check\<close>. The path that \<^verbatim>\<open>check_device\<close> gives to the
  handler carries the prefix \<^verbatim>\<open>/g/s\<close>.
\<close>

theorem check_device_url_has_prefix:
  "map rq_url (requests (check_device (init counting_session None) (PyStr ''abc123'')) example_world)
     \<noteq> [''/device/check'']
   \<and> map rq_url (requests (check_device (init counting_session None) (PyStr ''abc123'')) example_world)
     = [''/g/s/device/check'']"
  by (simp add: check_device_def world_defs example_defs)

section \<open>Uploading an image\<close>

text \<open>
  C6. When the file at the given path holds the bytes \<open>content\<close> (any sequence, of any
  length) and the handler returns a reply \<open>r\<close>, \<^verbatim>\<open>upload_image\<close> makes one request: a POST to
  the media upload endpoint whose body is exactly \<open>content\<close> and whose content type is
  \<^verbatim>\<open>image/jpg\<close>; and it returns the attribute \<^verbatim>\<open>mediaValue\<close> of the \<^verbatim>\<open>SResponse\<close> built over \<open>r\<close>,
  neither that object nor its \<^verbatim>\<open>json\<close>.
\<close>

theorem upload_image_sends_the_bytes:
  assumes "files w path = Some content"
    and "handler (session self) (length (sent w))
           \<lparr>rq_method = ''POST'', rq_url = ''/g/s/media/upload'',
            rq_data = Some (Bytes content), rq_content_type = Some ''image/jpg''\<rparr> = Inr r"
  shows "requests (upload_image self (PyStr path)) w =
           [\<lparr>rq_method = ''POST'', rq_url = ''/g/s/media/upload'',
             rq_data = Some (Bytes content), rq_content_type = Some ''image/jpg''\<rparr>]
         \<and> fst (upload_image self (PyStr path) w) = Inr (Attr (SResponse r) ''mediaValue'')
         \<and> fst (upload_image self (PyStr path) w) \<noteq> Inr (Obj (SResponse r))
         \<and> fst (upload_image self (PyStr path) w) \<noteq> Inr (Attr (SResponse r) ''json'')"
  using assms by (simp add: upload_image_def world_defs)

theorem upload_image_sends_the_bytes_witness:
  "files example_world ''cat.jpg'' = Some [0xFF, 0xD8, 0xFF]
   \<and> requests (upload_image (init counting_session None) (PyStr ''cat.jpg'')) example_world =
           [\<lparr>rq_method = ''POST'', rq_url = ''/g/s/media/upload'',
             rq_data = Some (Bytes [0xFF, 0xD8, 0xFF]), rq_content_type = Some ''image/jpg''\<rparr>]
   \<and> fst (upload_image (init counting_session None) (PyStr ''cat.jpg'') example_world)
        = Inr (Attr (SResponse 0) ''mediaValue'')"
proof -
  have readable: "files example_world ''cat.jpg'' = Some [0xFF, 0xD8, 0xFF]"
    by (simp add: example_world_def)
  have reply: "handler (session (init counting_session None)) (length (sent example_world))
           \<lparr>rq_method = ''POST'', rq_url = ''/g/s/media/upload'',
            rq_data = Some (Bytes [0xFF, 0xD8, 0xFF]), rq_content_type = Some ''image/jpg''\<rparr> = Inr 0"
    by (simp add: example_defs)
  from upload_image_sends_the_bytes [OF readable reply] readable show ?thesis
    by simp
qed

section \<open>Errors\<close>

text \<open>
  C7, as amended. Every call either raises, before any request is made, a Python exception
  of its own (\<^verbatim>\<open>fetch_profile\<close>: \<^verbatim>\<open>AttributeError\<close> on an instance without \<^verbatim>\<open>userId\<close>;
  \<^verbatim>\<open>upload_image\<close>: \<^verbatim>\<open>TypeError\<close> for \<^verbatim>\<open>None\<close>, and \<^verbatim>\<open>ValueError\<close> or \<^verbatim>\<open>OSError\<close> for a path that
  cannot be read), or makes exactly one request and then returns the result that its
  method builds over the handler's reply, or raises unchanged what the handler raised.
  With the handler that the specification describes, a response with HTTP status of 400
  or more, or with the error envelope in its body, reaches the caller as an \<open>ApiError\<close>
  with the remote's code and message, never as a result; a failure of the transport
  reaches the caller as a \<open>TransportError\<close>.
\<close>

theorem outcome_of_every_call:
  "(\<exists>rq. requests (register self email password username verificationCode) w = [rq]
      \<and> fst (register self email password username verificationCode w)
        = map_sum Raised (\<lambda>r. Obj (Authenticate r)) (handler (session self) (length (sent w)) rq))
   \<and> (\<exists>rq. requests (delete_request self email password) w = [rq]
      \<and> fst (delete_request self email password w)
        = map_sum Raised (\<lambda>r. Attr (SResponse r) ''json'')
            (handler (session self) (length (sent w)) rq))
   \<and> (\<exists>rq. requests (delete_request_cancel self email password) w = [rq]
      \<and> fst (delete_request_cancel self email password w)
        = map_sum Raised (\<lambda>r. Attr (SResponse r) ''json'')
            (handler (session self) (length (sent w)) rq))
   \<and> (\<exists>rq. requests (check_device self deviceId) w = [rq]
      \<and> fst (check_device self deviceId w)
        = map_sum Raised (\<lambda>r. Attr (SResponse r) ''json'')
            (handler (session self) (length (sent w)) rq))
   \<and> (\<exists>rq. requests (fetch_account self) w = [rq]
      \<and> fst (fetch_account self w)
        = map_sum Raised (\<lambda>r. Attr (SResponse r) ''json'')
            (handler (session self) (length (sent w)) rq))
   \<and> (\<exists>rq. requests (set_amino_id self aminoId) w = [rq]
      \<and> fst (set_amino_id self aminoId w)
        = map_sum Raised (\<lambda>r. Attr (SResponse r) ''json'')
            (handler (session self) (length (sent w)) rq))
   \<and> (\<exists>rq. requests (fetch_wallet self) w = [rq]
      \<and> fst (fetch_wallet self w)
        = map_sum Raised (\<lambda>r. Attr (Wallet r) ''json'')
            (handler (session self) (length (sent w)) rq))
   \<and> (\<exists>rq. requests (request_security_validation self email resetPassword) w = [rq]
      \<and> fst (request_security_validation self email resetPassword w)
        = map_sum Raised (\<lambda>r. Attr (SResponse r) ''json'')
            (handler (session self) (length (sent w)) rq))
   \<and> (\<exists>rq. requests (activate_email self email code) w = [rq]
      \<and> fst (activate_email self email code w)
        = map_sum Raised (\<lambda>r. Attr (SResponse r) ''json'')
            (handler (session self) (length (sent w)) rq))
   \<and> (\<exists>rq. requests (reset_password self email new_password code) w = [rq]
      \<and> fst (reset_password self email new_password code w)
        = map_sum Raised (\<lambda>r. Obj (ResetPassword r)) (handler (session self) (length (sent w)) rq))
   \<and> (case userId self of
         None \<Rightarrow> requests (fetch_profile self) w = []
           \<and> fst (fetch_profile self w) = Inl AttributeError
       | Some uid \<Rightarrow> (\<exists>rq. requests (fetch_profile self) w = [rq]
           \<and> fst (fetch_profile self w)
             = map_sum Raised (\<lambda>r. Attr (SResponse r) ''json'')
                 (handler (session self) (length (sent w)) rq)))
   \<and> requests (upload_image self PyNone) w = []
   \<and> fst (upload_image self PyNone w) = Inl TypeError
   \<and> (case files w path of
         None \<Rightarrow> requests (upload_image self (PyStr path)) w = []
           \<and> fst (upload_image self (PyStr path) w)
             = Inl (if CHR 0x00 \<in> set path then ValueError else OSError)
       | Some content \<Rightarrow> (\<exists>rq. requests (upload_image self (PyStr path)) w = [rq]
           \<and> fst (upload_image self (PyStr path) w)
             = map_sum Raised (\<lambda>r. Attr (SResponse r) ''mediaValue'')
                 (handler (session self) (length (sent w)) rq)))
   \<and> (requests (run \<lparr>session = spec_session send, debug = d, userId = u\<rparr> c) w = [sent_rq]
        \<and> send (length (sent w)) sent_rq = Some resp
        \<and> (400 \<le> status resp \<or> error_envelope resp)
      \<longrightarrow> fst (run \<lparr>session = spec_session send, debug = d, userId = u\<rparr> c w)
           = Inl (Raised (ApiError (remote_code resp) (remote_message resp))))
   \<and> (requests (run \<lparr>session = spec_session send, debug = d, userId = u\<rparr> c) w = [sent_rq]
        \<and> send (length (sent w)) sent_rq = None
      \<longrightarrow> fst (run \<lparr>session = spec_session send, debug = d, userId = u\<rparr> c w)
           = Inl (Raised TransportError))"
proof -
  have spec_error:
    "fst (run \<lparr>session = spec_session send, debug = d, userId = u\<rparr> c w)
       = Inl (Raised (ApiError (remote_code resp) (remote_message resp)))"
    if "requests (run \<lparr>session = spec_session send, debug = d, userId = u\<rparr> c) w = [sent_rq]"
      and "send (length (sent w)) sent_rq = Some resp"
      and "400 \<le> status resp \<or> error_envelope resp"
    using that
    by (cases c)
       (auto simp add: method_defs world_defs spec_session_def spec_handler_def
          split: pyval.splits option.splits)
  have spec_failure:
    "fst (run \<lparr>session = spec_session send, debug = d, userId = u\<rparr> c w)
       = Inl (Raised TransportError)"
    if "requests (run \<lparr>session = spec_session send, debug = d, userId = u\<rparr> c) w = [sent_rq]"
      and "send (length (sent w)) sent_rq = None"
    using that
    by (cases c)
       (auto simp add: method_defs world_defs spec_session_def spec_handler_def
          split: pyval.splits option.splits)
  show ?thesis
  proof (intro conjI)
    show "case userId self of
         None \<Rightarrow> requests (fetch_profile self) w = []
           \<and> fst (fetch_profile self w) = Inl AttributeError
       | Some uid \<Rightarrow> (\<exists>rq. requests (fetch_profile self) w = [rq]
           \<and> fst (fetch_profile self w)
             = map_sum Raised (\<lambda>r. Attr (SResponse r) ''json'')
                 (handler (session self) (length (sent w)) rq))"
      by (simp add: fetch_profile_def world_defs split: option.splits sum.splits)
    show "case files w path of
         None \<Rightarrow> requests (upload_image self (PyStr path)) w = []
           \<and> fst (upload_image self (PyStr path) w)
             = Inl (if CHR 0x00 \<in> set path then ValueError else OSError)
       | Some content \<Rightarrow> (\<exists>rq. requests (upload_image self (PyStr path)) w = [rq]
           \<and> fst (upload_image self (PyStr path) w)
             = map_sum Raised (\<lambda>r. Attr (SResponse r) ''mediaValue'')
                 (handler (session self) (length (sent w)) rq))"
      by (simp add: upload_image_def world_defs split: option.splits sum.splits)
    show "requests (run \<lparr>session = spec_session send, debug = d, userId = u\<rparr> c) w = [sent_rq]
        \<and> send (length (sent w)) sent_rq = Some resp
        \<and> (400 \<le> status resp \<or> error_envelope resp)
      \<longrightarrow> fst (run \<lparr>session = spec_session send, debug = d, userId = u\<rparr> c w)
           = Inl (Raised (ApiError (remote_code resp) (remote_message resp)))"
      using spec_error by blast
    show "requests (run \<lparr>session = spec_session send, debug = d, userId = u\<rparr> c) w = [sent_rq]
        \<and> send (length (sent w)) sent_rq = None
      \<longrightarrow> fst (run \<lparr>session = spec_session send, debug = d, userId = u\<rparr> c w)
           = Inl (Raised TransportError)"
      using spec_failure by blast
  qed (simp_all add: method_defs world_defs split: sum.splits)
qed

theorem outcome_of_every_call_witness:
  "requests (run \<lparr>session = spec_session refusing_send, debug = None, userId = None\<rparr>
       FetchAccountCall) example_world
     = [\<lparr>rq_method = ''GET'', rq_url = ''/g/s/account'', rq_data = None, rq_content_type = None\<rparr>]
   \<and> refusing_send (length (sent example_world))
       \<lparr>rq_method = ''GET'', rq_url = ''/g/s/account'', rq_data = None, rq_content_type = None\<rparr>
     = Some \<lparr>status = 403, error_envelope = True, remote_code = 270,
             remote_message = ''verification required''\<rparr>
   \<and> fst (run \<lparr>session = spec_session refusing_send, debug = None, userId = None\<rparr>
       FetchAccountCall example_world)
     = Inl (Raised (ApiError 270 ''verification required''))"
  using outcome_of_every_call [where self = "init counting_session None"
      and email = PyNone and password = PyNone and username = PyNone
      and verificationCode = PyNone and deviceId = PyNone and aminoId = PyNone
      and resetPassword = False and code = PyNone and new_password = PyNone
      and path = "''cat.jpg''"
      and w = example_world and send = refusing_send
      and d = None and u = None and c = FetchAccountCall
      and sent_rq = "\<lparr>rq_method = ''GET'', rq_url = ''/g/s/account'', rq_data = None,
        rq_content_type = None\<rparr>"
      and resp = "\<lparr>status = 403, error_envelope = True, remote_code = 270,
        remote_message = ''verification required''\<rparr>"]
  by (simp add: fetch_account_def world_defs example_defs refusing_send_def)

text \<open>
  C7 as stated allows three kinds of error only. \<^verbatim>\<open>fetch_profile\<close> on a fresh instance raises
  \<^verbatim>\<open>AttributeError\<close>, \<^verbatim>\<open>upload_image\<close> raises \<^verbatim>\<open>OSError\<close> on a path that is not there and
  \<^verbatim>\<open>ValueError\<close> on a path with a NUL character: none of them is a transport error, an API
  error or a validation error.
\<close>

theorem errors_outside_the_three_kinds:
  "fst (fetch_profile (init counting_session None) example_world) = Inl AttributeError
   \<and> fst (upload_image (init counting_session None) (PyStr ''missing.jpg'') example_world)
       = Inl OSError
   \<and> fst (upload_image (init counting_session None) (PyStr [CHR ''a'', CHR 0x00]) example_world)
       = Inl ValueError"
  by (simp add: fetch_profile_def upload_image_def example_defs)

lemma handler_error_reaches_the_caller:
  "fetch_account (init failing_session None) example_world
     = (Inl (Raised ''ApiError 270: verification required''),
        example_world\<lparr>sent :=
          [\<lparr>rq_method = ''GET'', rq_url = ''/g/s/account'', rq_data = None,
            rq_content_type = None\<rparr>]\<rparr>)"
  by (simp add: fetch_account_def world_defs example_defs)

text \<open>
  C8, as amended. No method checks its arguments. \<^verbatim>\<open>register\<close> puts the verification code
  it was given, \<^verbatim>\<open>None\<close> and the empty string included, into \<^verbatim>\<open>validationContext\<close> and makes
  its request; and \<^verbatim>\<open>delete_request\<close>, \<^verbatim>\<open>delete_request_cancel\<close>, \<^verbatim>\<open>check_device\<close>,
  \<^verbatim>\<open>set_amino_id\<close>, \<^verbatim>\<open>request_security_validation\<close>, \<^verbatim>\<open>activate_email\<close> and \<^verbatim>\<open>reset_password\<close>
  make exactly one request whatever their arguments are. Only \<^verbatim>\<open>upload_image\<close> stops before
  its request on a missing input, and that is \<^verbatim>\<open>open\<close> raising \<^verbatim>\<open>TypeError\<close>.
\<close>

theorem no_validation_of_inputs:
  "map (field ''validationContext'')
       (requests (register self email password username verificationCode) w)
     = [Some (JObj [(''data'', JObj [(''code'', py_json verificationCode)]),
                    (''type'', JInt 1), (''identity'', py_json email)])]
   \<and> length (requests (delete_request self email password) w) = 1
   \<and> length (requests (delete_request_cancel self email password) w) = 1
   \<and> length (requests (check_device self deviceId) w) = 1
   \<and> length (requests (set_amino_id self aminoId) w) = 1
   \<and> length (requests (request_security_validation self email resetPassword) w) = 1
   \<and> length (requests (activate_email self email code) w) = 1
   \<and> length (requests (reset_password self email new_password code) w) = 1
   \<and> upload_image self PyNone w = (Inl TypeError, w)"
  by (simp add: method_defs world_defs field_of_request)

text \<open>
  C8 as stated says that \<^verbatim>\<open>register\<close> without a verification code raises before the payload
  is built and sends nothing. With \<^verbatim>\<open>None\<close> for the code it returns normally, having sent
  \<^verbatim>\<open>code: null\<close>; with the empty string it sends \<^verbatim>\<open>code: ""\<close>.
\<close>

theorem register_without_code_is_sent:
  "register (init counting_session None)
       (PyStr ''a@b.c'') (PyStr ''pw'') (PyStr ''neko'') PyNone example_world
     = (Inr (Obj (Authenticate 0)),
        example_world\<lparr>device_id_calls := 1, time_calls := 1, sent :=
          [\<lparr>rq_method = ''POST'', rq_url = ''/g/s/auth/register'',
            rq_data = Some (Json (JObj [
             (''secret'', JStr ''0 pw''),
             (''deviceID'', JStr ''42A1''),
             (''email'', JStr ''a@b.c''),
             (''clientType'', JInt 100),
             (''nickname'', JStr ''neko''),
             (''validationContext'', JObj [
               (''data'', JObj [(''code'', JNull)]),
               (''type'', JInt 1),
               (''identity'', JStr ''a@b.c'')]),
             (''type'', JInt 1),
             (''identity'', JStr ''a@b.c''),
             (''timestamp'', JInt 1700000000500)])),
            rq_content_type = None\<rparr>]\<rparr>)
   \<and> map (field ''validationContext'')
        (requests (register (init counting_session None)
           (PyStr ''a@b.c'') (PyStr ''pw'') (PyStr ''neko'') (PyStr '''')) example_world)
      = [Some (JObj [(''data'', JObj [(''code'', JStr '''')]),
                     (''type'', JInt 1), (''identity'', JStr ''a@b.c'')])]"
  by (simp add: register_def world_defs example_defs field_of_request example_timestamp)

section \<open>No state across calls\<close>

text \<open>A call changes nothing of the world but the two call counters and the log.\<close>

lemma run_frame:
  "device_ids (snd (run self c w)) = device_ids w
   \<and> clock (snd (run self c w)) = clock w
   \<and> files (snd (run self c w)) = files w"
  by (cases c) (simp_all add: method_defs world_defs split: pyval.splits option.splits)

lemma run_all_frame:
  "device_ids (snd (run_all self cs w)) = device_ids w
   \<and> clock (snd (run_all self cs w)) = clock w
   \<and> files (snd (run_all self cs w)) = files w"
proof (induction cs arbitrary: w)
  case Nil
  show ?case by simp
next
  case (Cons c cs)
  obtain res w1 where step: "run self c w = (res, w1)"
    by (cases "run self c w")
  have "w1 = snd (run self c w)"
    using step by simp
  then have "device_ids w1 = device_ids w \<and> clock w1 = clock w \<and> files w1 = files w"
    using run_frame [of self c w] by simp
  with Cons.IH [of w1] step show ?case
    by (simp add: split_def Let_def)
qed

text \<open>
  The requests of a call are a function of its arguments, of \<^verbatim>\<open>self.userId\<close>, of what
  \<^verbatim>\<open>device_id()\<close> and \<^verbatim>\<open>time()\<close> return next and of the files: not of the log, and not of the
  handler.
\<close>

lemma requests_run_cong:
  assumes "device_ids w = device_ids w'" and "device_id_calls w = device_id_calls w'"
    and "clock w = clock w'" and "time_calls w = time_calls w'" and "files w = files w'"
    and "userId self = userId self'"
  shows "requests (run self c) w = requests (run self' c) w'"
  using assms
  by (cases c) (simp_all add: method_defs world_defs split: pyval.splits option.splits)

text \<open>
  C9. \<^verbatim>\<open>fetch_account\<close> twice, or \<^verbatim>\<open>fetch_wallet\<close> twice, makes two GET requests, and each outcome
  is what the handler did with its own request (the second is asked anew, at the next
  index). No method assigns to \<^verbatim>\<open>self\<close>, and the requests of a call \<open>c\<close> made after any calls
  \<open>cs\<close> are those it makes in the first world with only the counters of the external
  \<^verbatim>\<open>device_id()\<close> and \<^verbatim>\<open>time()\<close> moved on: they depend neither on the requests made before
  nor on the replies given.
\<close>

theorem fetch_twice_and_independence:
  "run_all self [FetchAccountCall, FetchAccountCall] w =
     ([map_sum Raised (\<lambda>r. Attr (SResponse r) ''json'')
         (handler (session self) (length (sent w))
            \<lparr>rq_method = ''GET'', rq_url = ''/g/s/account'', rq_data = None, rq_content_type = None\<rparr>),
       map_sum Raised (\<lambda>r. Attr (SResponse r) ''json'')
         (handler (session self) (Suc (length (sent w)))
            \<lparr>rq_method = ''GET'', rq_url = ''/g/s/account'', rq_data = None, rq_content_type = None\<rparr>)],
      w\<lparr>sent := sent w @
         [\<lparr>rq_method = ''GET'', rq_url = ''/g/s/account'', rq_data = None, rq_content_type = None\<rparr>,
          \<lparr>rq_method = ''GET'', rq_url = ''/g/s/account'', rq_data = None, rq_content_type = None\<rparr>]\<rparr>)
   \<and> run_all self [FetchWalletCall, FetchWalletCall] w =
     ([map_sum Raised (\<lambda>r. Attr (Wallet r) ''json'')
         (handler (session self) (length (sent w))
            \<lparr>rq_method = ''GET'', rq_url = ''/g/s/wallet'', rq_data = None, rq_content_type = None\<rparr>),
       map_sum Raised (\<lambda>r. Attr (Wallet r) ''json'')
         (handler (session self) (Suc (length (sent w)))
            \<lparr>rq_method = ''GET'', rq_url = ''/g/s/wallet'', rq_data = None, rq_content_type = None\<rparr>)],
      w\<lparr>sent := sent w @
         [\<lparr>rq_method = ''GET'', rq_url = ''/g/s/wallet'', rq_data = None, rq_content_type = None\<rparr>,
          \<lparr>rq_method = ''GET'', rq_url = ''/g/s/wallet'', rq_data = None, rq_content_type = None\<rparr>]\<rparr>)
   \<and> requests (run self c) (snd (run_all self cs w)) =
       requests (run self c)
         (w\<lparr>device_id_calls := device_id_calls (snd (run_all self cs w)),
            time_calls := time_calls (snd (run_all self cs w))\<rparr>)
   \<and> requests (run self c) (w\<lparr>sent := history\<rparr>) = requests (run self c) w
   \<and> requests (run (self\<lparr>session := s\<rparr>) c) w = requests (run self c) w"
proof (intro conjI)
  show "requests (run self c) (snd (run_all self cs w)) =
       requests (run self c)
         (w\<lparr>device_id_calls := device_id_calls (snd (run_all self cs w)),
            time_calls := time_calls (snd (run_all self cs w))\<rparr>)"
    by (rule requests_run_cong) (simp_all add: run_all_frame)
  show "requests (run self c) (w\<lparr>sent := history\<rparr>) = requests (run self c) w"
    by (rule requests_run_cong) simp_all
  show "requests (run (self\<lparr>session := s\<rparr>) c) w = requests (run self c) w"
    by (rule requests_run_cong) simp_all
qed (simp_all add: fetch_account_def fetch_wallet_def returning_def call_handler_def
       split: sum.splits)

lemma second_fetch_is_answered_anew:
  "fst (run_all (init counting_session None) [FetchWalletCall, FetchWalletCall] example_world)
     = [Inr (Attr (Wallet 0) ''json''), Inr (Attr (Wallet 1) ''json'')]"
  by (simp add: fetch_wallet_def returning_def call_handler_def example_defs)

section \<open>The attribute userId\<close>

lemma returning_Inr:
  assumes "\<forall>n rq. \<exists>r. handler s n rq = Inr r"
  shows "\<exists>v. fst (returning f (call_handler s rq w)) = Inr v"
proof -
  from assms obtain r where "handler s (length (sent w)) rq = Inr r"
    by blast
  then show ?thesis
    by (simp add: returning_def call_handler_def)
qed

text \<open>
  C10. The constructor sets \<^verbatim>\<open>session\<close> and \<^verbatim>\<open>debug\<close> and nothing else, and no method assigns
  to \<^verbatim>\<open>self\<close> (a method returns no new instance). So on every instance without \<^verbatim>\<open>userId\<close>,
  \<^verbatim>\<open>fetch_profile\<close> raises \<^verbatim>\<open>AttributeError\<close> and makes no request, while every other call
  never raises \<^verbatim>\<open>AttributeError\<close>, does exactly what it does on an instance that has a
  \<^verbatim>\<open>userId\<close>, and returns a result whenever the handler returns replies and, for
  \<^verbatim>\<open>upload_image\<close>, the file can be read.
\<close>

theorem fetch_profile_needs_userId:
  "init s d = \<lparr>session = s, debug = d, userId = None\<rparr>
   \<and> fetch_profile (self\<lparr>userId := None\<rparr>) w = (Inl AttributeError, w)
   \<and> (c \<noteq> FetchProfileCall \<longrightarrow>
        fst (run (self\<lparr>userId := None\<rparr>) c w) \<noteq> Inl AttributeError
        \<and> run (self\<lparr>userId := None\<rparr>) c w = run (self\<lparr>userId := u\<rparr>) c w)
   \<and> (c \<noteq> FetchProfileCall
        \<and> (\<forall>n rq. \<exists>r. handler (session self) n rq = Inr r)
        \<and> (\<forall>img. c = UploadImageCall img \<longrightarrow> (\<exists>path. img = PyStr path \<and> files w path \<noteq> None))
      \<longrightarrow> (\<exists>v. fst (run (self\<lparr>userId := None\<rparr>) c w) = Inr v))"
proof (intro conjI impI)
  show "init s d = \<lparr>session = s, debug = d, userId = None\<rparr>"
    by (simp add: init_def)
  show "fetch_profile (self\<lparr>userId := None\<rparr>) w = (Inl AttributeError, w)"
    by (simp add: fetch_profile_def)
next
  assume "c \<noteq> FetchProfileCall"
  then show "fst (run (self\<lparr>userId := None\<rparr>) c w) \<noteq> Inl AttributeError"
    by (cases c)
       (simp_all add: method_defs world_defs split: pyval.splits option.splits sum.splits)
next
  assume "c \<noteq> FetchProfileCall"
  then show "run (self\<lparr>userId := None\<rparr>) c w = run (self\<lparr>userId := u\<rparr>) c w"
    by (cases c) (simp_all add: method_defs split: pyval.splits option.splits)
next
  assume h: "c \<noteq> FetchProfileCall
        \<and> (\<forall>n rq. \<exists>r. handler (session self) n rq = Inr r)
        \<and> (\<forall>img. c = UploadImageCall img \<longrightarrow> (\<exists>path. img = PyStr path \<and> files w path \<noteq> None))"
  then have replies: "\<forall>n rq. \<exists>r. handler (session self) n rq = Inr r"
    by simp
  show "\<exists>v. fst (run (self\<lparr>userId := None\<rparr>) c w) = Inr v"
  proof (cases c)
    case FetchProfileCall
    with h show ?thesis by simp
  next
    case (UploadImageCall img)
    with h obtain path content where "img = PyStr path" and "files w path = Some content"
      by auto
    with UploadImageCall returning_Inr [OF replies] show ?thesis
      by (simp add: upload_image_def)
  qed (simp_all add: method_defs device_id_def time_def split_def returning_Inr [OF replies])
qed

theorem fetch_profile_needs_userId_witness:
  "UploadImageCall (PyStr ''cat.jpg'') \<noteq> FetchProfileCall
   \<and> (\<forall>n rq. \<exists>r. handler (session (init counting_session None)) n rq = Inr r)
   \<and> files example_world ''cat.jpg'' \<noteq> None
   \<and> fetch_profile (init counting_session None) example_world = (Inl AttributeError, example_world)
   \<and> fst (run (init counting_session None) (UploadImageCall (PyStr ''cat.jpg'')) example_world)
       = Inr (Attr (SResponse 0) ''mediaValue'')
   \<and> run ((init counting_session None)\<lparr>userId := Some (PyStr ''u-1'')\<rparr>)
         (UploadImageCall (PyStr ''cat.jpg'')) example_world
       = run (init counting_session None) (UploadImageCall (PyStr ''cat.jpg'')) example_world"
  using fetch_profile_needs_userId [of counting_session None "init counting_session None"
      example_world "UploadImageCall (PyStr ''cat.jpg'')" "Some (PyStr ''u-1'')"]
  by (simp add: example_defs upload_image_def world_defs)

end
